theory Spec2Isabelle
  imports Main "HOL-Library.Word"
begin

section \<open>Values, errors and the two external inputs of the password hasher\<close>

text \<open>
  The JavaScript values that can reach \<open>Utils.hashPassword\<close> and
  \<open>Utils.verifyPassword\<close>. Only strings are accepted by \<open>original.split\<close> and by
  \<open>crypto.pbkdf2Sync\<close>; \<open>JOther\<close> stands for every other non-nullish value a JSON body
  can carry (number, boolean, array, plain object).
\<close>

datatype js_value = JUndefined | JNull | JStr string | JOther

text \<open>
  The errors that are raised: a \<open>TypeError\<close> for a value of the wrong type, the plain
  \<open>Error\<close> of signing without a key, the two errors of token verification, and the
  \<open>ValidationError\<close> that rejects the save of a document the schema does not accept.
\<close>

datatype js_error =
    TypeError
  | Error
  | JsonWebTokenError
  | TokenExpiredError
  | ValidationError

type_synonym byte = "8 word"

text \<open>
  \<open>crypto.pbkdf2Sync(password, salt, iterations, keylen, digest)\<close> belongs to Node's
  \<open>crypto\<close> library. It is a parameter of the model: any function of the five
  arguments, defined on all strings as the library function is (an empty password or an
  empty salt is accepted).
\<close>

type_synonym kdf = "string \<Rightarrow> string \<Rightarrow> nat \<Rightarrow> nat \<Rightarrow> string \<Rightarrow> byte list"

text \<open>
  The secure random source is the sequence of bytes it is going to deliver;
  \<open>crypto.randomBytes(n)\<close> takes the next \<open>n\<close> of them.
\<close>

type_synonym rng = "nat \<Rightarrow> byte"

definition randomBytes :: "nat \<Rightarrow> rng \<Rightarrow> byte list \<times> rng" where
  "randomBytes n g = (map g [0..<n], (\<lambda>i. g (i + n)))"

subsection \<open>\<open>Buffer.toString('hex')\<close>\<close>

definition hex_alphabet :: string where
  "hex_alphabet = ''0123456789abcdef''"

definition hex_digit :: "nat \<Rightarrow> char" where
  "hex_digit n = hex_alphabet ! (n mod 16)"

definition hex_byte :: "byte \<Rightarrow> string" where
  "hex_byte b = [hex_digit (unat b div 16), hex_digit (unat b mod 16)]"

definition toHex :: "byte list \<Rightarrow> string" where
  "toHex bs = concat (map hex_byte bs)"

definition is_hex_char :: "char \<Rightarrow> bool" where
  "is_hex_char c = (c \<in> set hex_alphabet)"

subsection \<open>\<open>String.prototype.split\<close> with a one-character separator, and indexing\<close>

text \<open>
  \<open>s.split(sep)\<close> cuts at every occurrence of the separator and always returns at least
  one piece. \<open>xs[i]\<close> beyond the end of an array is \<open>undefined\<close>, here \<open>None\<close>.
\<close>

fun js_split :: "char \<Rightarrow> string \<Rightarrow> string list" where
  "js_split sep [] = [[]]"
| "js_split sep (c # cs) =
     (if c = sep then [] # js_split sep cs
      else (case js_split sep cs of
              [] \<Rightarrow> [[c]]
            | w # ws \<Rightarrow> (c # w) # ws))"

definition js_index :: "'a list \<Rightarrow> nat \<Rightarrow> 'a option" where
  "js_index xs i = (if i < length xs then Some (xs ! i) else None)"

section \<open>\<open>Utils.hashPassword\<close> and \<open>Utils.verifyPassword\<close>\<close>

definition hashPassword :: "kdf \<Rightarrow> js_value \<Rightarrow> rng \<Rightarrow> (js_error + string) \<times> rng" where
  "hashPassword pbkdf2Sync password g =
     (let (bytes, g') = randomBytes 16 g;
          salt = toHex bytes
      in case password of
           JStr pw \<Rightarrow>
             (let hash = toHex (pbkdf2Sync pw salt 2048 32 ''sha512'')
              in (Inr (salt @ ''$'' @ hash), g'))
         | _ \<Rightarrow> (Inl TypeError, g'))"

definition verifyPassword :: "kdf \<Rightarrow> js_value \<Rightarrow> js_value \<Rightarrow> js_error + bool" where
  "verifyPassword pbkdf2Sync password original =
     (case original of
        JStr orig \<Rightarrow>
          (let originalHash = js_index (js_split (CHR ''$'') orig) 1;
               salt = js_index (js_split (CHR ''$'') orig) 0
           in case (password, salt) of
                (JStr pw, Some s) \<Rightarrow>
                  (let hash = toHex (pbkdf2Sync pw s 2048 32 ''sha512'')
                   in Inr (Some hash = originalHash))
              | _ \<Rightarrow> Inl TypeError)
      | _ \<Rightarrow> Inl TypeError)"

section \<open>The stored-hash format and the verification rule as the specification words them\<close>

text \<open>
  The text format \<open><32-hex-char salt>$<64-hex-char derivedHash>\<close> of the specification:
  97 characters, lowercase hexadecimal on both sides of a single \<open>$\<close> at position 32.
\<close>

definition stored_hash_format :: "string \<Rightarrow> bool" where
  "stored_hash_format h =
     (length h = 97 \<and> list_all is_hex_char (take 32 h) \<and> drop 32 (take 33 h) = ''$''
      \<and> list_all is_hex_char (drop 33 h))"

text \<open>
  The verification algorithm in the specification's words: split the stored hash on the
  first \<open>$\<close> into salt and expected hash, derive again, compare for equality. A stored
  hash with no separator does not match.
\<close>

definition split_first :: "char \<Rightarrow> string \<Rightarrow> (string \<times> string) option" where
  "split_first sep s =
     (if sep \<in> set s
      then Some (takeWhile (\<lambda>c. c \<noteq> sep) s, tl (dropWhile (\<lambda>c. c \<noteq> sep) s))
      else None)"

text \<open>
  Whether the second piece of \<open>original.split('$')\<close>, the \<open>originalHash\<close> of
  \<open>verifyPassword\<close>, is there and is 64 lowercase hexadecimal characters.
\<close>

definition hash_field_ok :: "string \<Rightarrow> bool" where
  "hash_field_ok original =
     (case js_index (js_split (CHR ''$'') original) 1 of
        None \<Rightarrow> False
      | Some h \<Rightarrow> length h = 64 \<and> list_all is_hex_char h)"

definition verify_spec :: "kdf \<Rightarrow> string \<Rightarrow> string \<Rightarrow> bool" where
  "verify_spec pbkdf2Sync secret storedHash =
     (case split_first (CHR ''$'') storedHash of
        None \<Rightarrow> False
      | Some (salt, expectedHash) \<Rightarrow>
          toHex (pbkdf2Sync secret salt 2048 32 ''sha512'') = expectedHash)"

section \<open>Token service\<close>

text \<open>\<open>process.env\<close>: a variable that is not set reads as \<open>undefined\<close>, here \<open>None\<close>.\<close>

type_synonym env = "string \<rightharpoonup> string"

text \<open>
  JavaScript's \<open>!x\<close> for a value that is a string or \<open>undefined\<close>: true for
  \<open>undefined\<close> and for the empty string.
\<close>

definition falsy :: "string option \<Rightarrow> bool" where
  "falsy v = (case v of None \<Rightarrow> True | Some s \<Rightarrow> s = [])"

text \<open>
  The object a token carries: the wrapper \<open>{ user: payload }\<close> that
  \<open>generateAccessToken\<close> signs, with the issue and expiry times the signing adds. Times are
  whole seconds, as in a token's \<open>iat\<close> and \<open>exp\<close>.
\<close>

record 'p jwt_payload =
  jwt_user :: 'p
  jwt_iat :: nat
  jwt_exp :: nat

record ('p, 'sig) jwt =
  jwt_body :: "'p jwt_payload"
  jwt_signature :: 'sig

text \<open>
  The primitives under the token format are parameters: \<open>mac key body\<close> is the keyed
  signature over the encoded header and payload, \<open>encode\<close> writes a token as the compact
  string handed to clients and \<open>decode\<close> parses such a string (\<open>None\<close> when it is
  not a token).
\<close>

record ('p, 'sig) jws =
  mac :: "string \<Rightarrow> 'p jwt_payload \<Rightarrow> 'sig"
  encode :: "('p, 'sig) jwt \<Rightarrow> string"
  decode :: "string \<Rightarrow> ('p, 'sig) jwt option"

text \<open>
  Modelled from the spec: \<open>jsonWebToken.sign\<close> and \<open>jsonWebToken.verify\<close> belong to the
  \<open>jsonwebtoken\<close> package, which is not part of the repository. Minting signs the
  payload with the secret key and an expiry a fixed time after the mint time. Validation checks the
  signature against the secret key, checks the expiry against the current time, and
  returns the embedded payload, or fails on a malformed token, a bad signature or an
  expired token. A token is expired from its expiry time on. Without a secret key both
  operations fail in the call.
\<close>

definition mint_token :: "('p, 'sig) jws \<Rightarrow> 'p \<Rightarrow> string \<Rightarrow> nat \<Rightarrow> nat \<Rightarrow> ('p, 'sig) jwt" where
  "mint_token lib payload key lifetime now =
     (let body = \<lparr>jwt_user = payload, jwt_iat = now, jwt_exp = now + lifetime\<rparr>
      in \<lparr>jwt_body = body, jwt_signature = mac lib key body\<rparr>)"

definition jwt_sign ::
  "('p, 'sig) jws \<Rightarrow> 'p \<Rightarrow> string option \<Rightarrow> nat \<Rightarrow> nat \<Rightarrow> js_error + string" where
  "jwt_sign lib payload secretOrPrivateKey lifetime now =
     (case secretOrPrivateKey of
        None \<Rightarrow> Inl Error
      | Some key \<Rightarrow>
          if key = [] then Inl Error
          else Inr (encode lib (mint_token lib payload key lifetime now)))"

definition jwt_verify ::
  "('p, 'sig) jws \<Rightarrow> string \<Rightarrow> string option \<Rightarrow> nat \<Rightarrow> js_error + 'p jwt_payload" where
  "jwt_verify lib token secretOrPublicKey now =
     (case decode lib token of
        None \<Rightarrow> Inl JsonWebTokenError
      | Some t \<Rightarrow>
          (case secretOrPublicKey of
             None \<Rightarrow> Inl JsonWebTokenError
           | Some key \<Rightarrow>
               if key = [] then Inl JsonWebTokenError
               else if jwt_signature t \<noteq> mac lib key (jwt_body t)
                 then Inl JsonWebTokenError
               else if jwt_exp (jwt_body t) \<le> now then Inl TokenExpiredError
               else Inr (jwt_body t)))"

text \<open>\<open>{ expiresIn: '30min' }\<close>, in seconds.\<close>

definition expiresIn :: nat where
  "expiresIn = 30 * 60"

text \<open>\<open>Utils.generateAccessToken\<close>; \<open>now\<close> is the clock at the call.\<close>

definition generateAccessToken :: "('p, 'sig) jws \<Rightarrow> env \<Rightarrow> nat \<Rightarrow> 'p \<Rightarrow> js_error + string" where
  "generateAccessToken lib env now user =
     jwt_sign lib user (env ''SECRET_KEY'') expiresIn now"

subsection \<open>\<open>GET /auth/validate\<close>\<close>

datatype 'p auth_body =
    Message string
  | MessageError string js_error
  | Decoded "'p jwt_payload"

text \<open>An HTTP answer: \<open>res.status(status).json(body)\<close>.\<close>

record 'b response =
  status :: nat
  body :: 'b

text \<open>
  The handler reads the \<open>Authorization\<close> header (\<open>None\<close> when the request has none),
  takes the second piece of the header split at spaces as the token, and verifies it
  with \<open>process.env.SECRET_KEY\<close>. Every error of the verification is answered by 403;
  \<open>MessageError m e\<close> is the body \<open>{ message: m, error: e.message }\<close>.
\<close>

definition auth_validate ::
  "('p, 'sig) jws \<Rightarrow> env \<Rightarrow> nat \<Rightarrow> string option \<Rightarrow> 'p auth_body response" where
  "auth_validate lib env now authorization =
     (case authorization of
        None \<Rightarrow> \<lparr>status = 401, body = Message ''Authorization header missing''\<rparr>
      | Some authHeader \<Rightarrow>
          if authHeader = []
          then \<lparr>status = 401, body = Message ''Authorization header missing''\<rparr>
          else
            (case js_index (js_split (CHR '' '') authHeader) 1 of
               None \<Rightarrow> \<lparr>status = 401, body = Message ''Token missing''\<rparr>
             | Some token \<Rightarrow>
                 if token = [] then \<lparr>status = 401, body = Message ''Token missing''\<rparr>
                 else
                   (case jwt_verify lib token (env ''SECRET_KEY'') now of
                      Inr decoded \<Rightarrow> \<lparr>status = 200, body = Decoded decoded\<rparr>
                    | Inl err \<Rightarrow>
                        \<lparr>status = 403,
                         body = MessageError ''Invalid or expired token'' err\<rparr>)))"

subsection \<open>Server bootstrap\<close>

text \<open>
  What the bootstrap script does with the environment: the port is
  \<open>process.env.PORT || 3000\<close>, the database connection is opened with
  \<open>process.env.MONGODB_URI\<close> (a failed connection is logged, nothing more), the routers
  are mounted and the server listens. No statement of the script, and no statement run
  when the modules it requires are loaded, reads \<open>SECRET_KEY\<close> or stops the process.
\<close>

record server =
  port :: string
  mongodb_uri :: "string option"
  mounted :: "string list"

datatype startup = Aborted | Listening server

definition server_bootstrap :: "env \<Rightarrow> startup" where
  "server_bootstrap env =
     Listening
       \<lparr>port = (case env ''PORT'' of
                 None \<Rightarrow> ''3000''
               | Some p \<Rightarrow> if p = [] then ''3000'' else p),
        mongodb_uri = env ''MONGODB_URI'',
        mounted = [''/'', ''/user'', ''/auth'', ''/job-application'']\<rparr>"

section \<open>The user model\<close>

text \<open>The fields of the user schema, with the types the schema gives them.\<close>

record user_fields =
  firstName :: string
  lastName :: string
  email :: string
  password :: string
  bio :: string
  avatar :: string
  accessLevel :: int
  newUser :: bool

text \<open>
  The users collection maps \<open>_id\<close> to the stored fields. A document in memory carries
  its \<open>_id\<close>, its current fields and the paths modified since it was loaded.
  Mongoose is not part of the repository; the operations below follow what its
  documentation says of them: assigning a field records its path as modified when the
  value changes; \<open>save\<close> validates the document against the schema, then runs the
  \<open>pre('save')\<close> hooks, then writes the document; \<open>findByIdAndUpdate\<close> applies the
  update in the database and runs neither validation nor the \<open>save\<close> hooks. Schema
  validation is the parameter \<open>validate\<close>. Identifiers are taken to be well-formed.
\<close>

type_synonym user_db = "string \<rightharpoonup> user_fields"

record user_document =
  doc_id :: string
  doc :: user_fields
  modifiedPaths :: "string list"

definition isModified :: "string \<Rightarrow> user_document \<Rightarrow> bool" where
  "isModified path d = (path \<in> set (modifiedPaths d))"

definition findById :: "user_db \<Rightarrow> string \<Rightarrow> user_document option" where
  "findById db ident =
     (case db ident of
        None \<Rightarrow> None
      | Some f \<Rightarrow> Some \<lparr>doc_id = ident, doc = f, modifiedPaths = []\<rparr>)"

definition set_avatar :: "string \<Rightarrow> user_document \<Rightarrow> user_document" where
  "set_avatar v d =
     (if avatar (doc d) = v then d
      else d\<lparr>doc := (doc d)\<lparr>avatar := v\<rparr>, modifiedPaths := ''avatar'' # modifiedPaths d\<rparr>)"

definition set_password :: "string \<Rightarrow> user_document \<Rightarrow> user_document" where
  "set_password v d =
     (if password (doc d) = v then d
      else d\<lparr>doc := (doc d)\<lparr>password := v\<rparr>, modifiedPaths := ''password'' # modifiedPaths d\<rparr>)"

text \<open>
  \<open>userSchema.pre('save', ...)\<close>: when the password is non-empty and modified, it is
  replaced by \<open>Utils.hashPassword\<close> of itself.
\<close>

definition pre_save :: "kdf \<Rightarrow> user_document \<Rightarrow> rng \<Rightarrow> (js_error + user_document) \<times> rng" where
  "pre_save pbkdf2Sync this g =
     (if password (doc this) \<noteq> [] \<and> isModified ''password'' this
      then (case hashPassword pbkdf2Sync (JStr (password (doc this))) g of
              (Inr h, g') \<Rightarrow> (Inr (this\<lparr>doc := (doc this)\<lparr>password := h\<rparr>\<rparr>), g')
            | (Inl e, g') \<Rightarrow> (Inl e, g'))
      else (Inr this, g))"

definition save ::
  "kdf \<Rightarrow> (user_fields \<Rightarrow> bool) \<Rightarrow> user_document \<Rightarrow> user_db \<Rightarrow> rng
     \<Rightarrow> (js_error + user_document) \<times> user_db \<times> rng" where
  "save pbkdf2Sync validate d db g =
     (if \<not> validate (doc d) then (Inl ValidationError, db, g)
      else (case pre_save pbkdf2Sync d g of
              (Inl e, g') \<Rightarrow> (Inl e, db, g')
            | (Inr d', g') \<Rightarrow>
                (Inr (d'\<lparr>modifiedPaths := []\<rparr>), db(doc_id d' \<mapsto> doc d'), g')))"

text \<open>
  An update object, and a request body of \<open>PUT /user/:id\<close>: each field is either absent
  (\<open>undefined\<close>, here \<open>None\<close>) or has a value.
\<close>

record user_patch =
  p_firstName :: "string option"
  p_lastName :: "string option"
  p_email :: "string option"
  p_bio :: "string option"
  p_accessLevel :: "int option"
  p_newUser :: "bool option"
  p_password :: "string option"

definition apply_patch :: "user_patch \<Rightarrow> user_fields \<Rightarrow> user_fields" where
  "apply_patch u f =
     \<lparr>firstName = (case p_firstName u of None \<Rightarrow> firstName f | Some v \<Rightarrow> v),
      lastName = (case p_lastName u of None \<Rightarrow> lastName f | Some v \<Rightarrow> v),
      email = (case p_email u of None \<Rightarrow> email f | Some v \<Rightarrow> v),
      password = (case p_password u of None \<Rightarrow> password f | Some v \<Rightarrow> v),
      bio = (case p_bio u of None \<Rightarrow> bio f | Some v \<Rightarrow> v),
      avatar = avatar f,
      accessLevel = (case p_accessLevel u of None \<Rightarrow> accessLevel f | Some v \<Rightarrow> v),
      newUser = (case p_newUser u of None \<Rightarrow> newUser f | Some v \<Rightarrow> v)\<rparr>"

definition findByIdAndUpdate ::
  "user_db \<Rightarrow> string \<Rightarrow> user_patch \<Rightarrow> user_document option \<times> user_db" where
  "findByIdAndUpdate db ident updates =
     (case db ident of
        None \<Rightarrow> (None, db)
      | Some f \<Rightarrow>
          (Some \<lparr>doc_id = ident, doc = apply_patch updates f, modifiedPaths = []\<rparr>,
           db(ident \<mapsto> apply_patch updates f)))"

section \<open>The user routes\<close>

text \<open>The \<open>userObject\<close> the routes answer with and put into tokens: no password.\<close>

record user_object =
  o_id :: string
  o_firstName :: string
  o_lastName :: string
  o_email :: string
  o_bio :: string
  o_accessLevel :: int
  o_newUser :: bool
  o_avatar :: string

definition userObject :: "user_document \<Rightarrow> user_object" where
  "userObject user =
     \<lparr>o_id = doc_id user,
      o_firstName = firstName (doc user),
      o_lastName = lastName (doc user),
      o_email = email (doc user),
      o_bio = bio (doc user),
      o_accessLevel = accessLevel (doc user),
      o_newUser = newUser (doc user),
      o_avatar = avatar (doc user)\<rparr>"

datatype user_body =
    Msg string
  | MsgError string js_error
  | MsgUser string user_object
  | MsgFile string string

text \<open>\<open>String.prototype.trim\<close>, on the ASCII white space.\<close>

definition is_js_space :: "char \<Rightarrow> bool" where
  "is_js_space c = (c \<in> set [CHR 0x09, CHR 0x0A, CHR 0x0B, CHR 0x0C, CHR 0x0D, CHR '' ''])"

definition js_trim :: "string \<Rightarrow> string" where
  "js_trim s = rev (dropWhile is_js_space (rev (dropWhile is_js_space s)))"

subsection \<open>\<open>PUT /user/:id\<close>\<close>

text \<open>
  The handler copies the fields the body defines into \<open>updates\<close>, the password only when
  it is non-empty after trimming, and hands \<open>updates\<close> to \<open>User.findByIdAndUpdate\<close>.
\<close>

definition put_user ::
  "string \<Rightarrow> user_patch option \<Rightarrow> user_db \<Rightarrow> user_body response \<times> user_db" where
  "put_user ident reqBody db =
     (case reqBody of
        None \<Rightarrow> (\<lparr>status = 400, body = Msg ''User content is empty''\<rparr>, db)
      | Some b \<Rightarrow>
          (let updates =
                 \<lparr>p_firstName = p_firstName b,
                  p_lastName = p_lastName b,
                  p_email = p_email b,
                  p_bio = p_bio b,
                  p_accessLevel = p_accessLevel b,
                  p_newUser = p_newUser b,
                  p_password =
                    (case p_password b of
                       None \<Rightarrow> None
                     | Some pw \<Rightarrow> if pw \<noteq> [] \<and> js_trim pw \<noteq> [] then Some pw else None)\<rparr>
           in case findByIdAndUpdate db ident updates of
                (None, db') \<Rightarrow> (\<lparr>status = 404, body = Msg ''User not found''\<rparr>, db')
              | (Some user, db') \<Rightarrow>
                  (\<lparr>status = 200,
                    body = MsgUser ''User updated successfully'' (userObject user)\<rparr>, db')))"

subsection \<open>The avatar routes\<close>

text \<open>
  What the avatar routes act on: the users collection, the set of paths of the files on
  disk, and the random source. An uploaded file has its temporary path; \<open>decodable\<close>
  says whether the image library can read it.
\<close>

record world =
  users :: user_db
  files :: "string set"
  entropy :: rng

record upload =
  temp_path :: string
  decodable :: bool

definition delete_avatar ::
  "kdf \<Rightarrow> (user_fields \<Rightarrow> bool) \<Rightarrow> string \<Rightarrow> world \<Rightarrow> user_body response \<times> world" where
  "delete_avatar pbkdf2Sync validate ident w =
     (case findById (users w) ident of
        None \<Rightarrow> (\<lparr>status = 404, body = Msg ''User not found''\<rparr>, w)
      | Some user \<Rightarrow>
          (let fs = (if avatar (doc user) \<noteq> []
                     then files w - {''public/avatars/'' @ avatar (doc user)}
                     else files w)
           in case save pbkdf2Sync validate (set_avatar [] user) (users w) (entropy w) of
                (Inl e, db', g') \<Rightarrow>
                  (\<lparr>status = 500, body = MsgError ''Error removing avatar'' e\<rparr>,
                   \<lparr>users = db', files = fs, entropy = g'\<rparr>)
              | (Inr saved, db', g') \<Rightarrow>
                  (\<lparr>status = 200, body = Msg ''Avatar removed''\<rparr>,
                   \<lparr>users = db', files = fs, entropy = g'\<rparr>)))"

definition post_avatar ::
  "kdf \<Rightarrow> (user_fields \<Rightarrow> bool) \<Rightarrow> string \<Rightarrow> upload option \<Rightarrow> world
     \<Rightarrow> user_body response \<times> world" where
  "post_avatar pbkdf2Sync validate ident file w =
     (case file of
        None \<Rightarrow> (\<lparr>status = 400, body = Msg ''No file uploaded''\<rparr>, w)
      | Some f \<Rightarrow>
          (case findById (users w) ident of
             None \<Rightarrow>
               (\<lparr>status = 404, body = Msg ''User not found''\<rparr>,
                w\<lparr>files := files w - {temp_path f}\<rparr>)
           | Some user \<Rightarrow>
               (let finalFilename = ''user_'' @ doc_id user @ ''.png'';
                    finalPath = ''public/avatars/'' @ finalFilename
                in if \<not> decodable f
                   then (\<lparr>status = 500, body = MsgError ''Error uploading avatar'' Error\<rparr>, w)
                   else
                     (let fs = insert finalPath (files w) - {temp_path f}
                      in case save pbkdf2Sync validate (set_avatar finalFilename user)
                                (users w) (entropy w) of
                           (Inl e, db', g') \<Rightarrow>
                             (\<lparr>status = 500, body = MsgError ''Error uploading avatar'' e\<rparr>,
                              \<lparr>users = db', files = fs, entropy = g'\<rparr>)
                         | (Inr saved, db', g') \<Rightarrow>
                             (\<lparr>status = 200,
                               body = MsgFile ''Avatar uploaded successfully'' finalFilename\<rparr>,
                              \<lparr>users = db', files = fs, entropy = g'\<rparr>)))))"

subsection \<open>\<open>POST /auth/change-password\<close>\<close>

text \<open>
  The handler takes the token from the \<open>Authorization\<close> header, requires both
  passwords of the body, verifies the token, loads the user named by the token's payload,
  checks the old password against the stored hash, assigns the new password to the
  document and saves it. An error raised on the way is answered by 500.
\<close>

definition change_password ::
  "(user_object, 'sig) jws \<Rightarrow> kdf \<Rightarrow> (user_fields \<Rightarrow> bool) \<Rightarrow> env \<Rightarrow> nat
     \<Rightarrow> string option \<Rightarrow> string option \<Rightarrow> string option \<Rightarrow> world
     \<Rightarrow> user_body response \<times> world" where
  "change_password lib pbkdf2Sync validate env now authorization oldPassword newPassword w =
     (case authorization of
        None \<Rightarrow> (\<lparr>status = 401, body = Msg ''Authorization header missing''\<rparr>, w)
      | Some authHeader \<Rightarrow>
          if authHeader = []
          then (\<lparr>status = 401, body = Msg ''Authorization header missing''\<rparr>, w)
          else
            (case js_index (js_split (CHR '' '') authHeader) 1 of
               None \<Rightarrow> (\<lparr>status = 401, body = Msg ''Token missing''\<rparr>, w)
             | Some token \<Rightarrow>
                 if token = [] then (\<lparr>status = 401, body = Msg ''Token missing''\<rparr>, w)
                 else
                   (case (oldPassword, newPassword) of
                      (Some old, Some new) \<Rightarrow>
                        if old = [] \<or> new = []
                        then (\<lparr>status = 400,
                               body = Msg ''Old password and new password are required''\<rparr>, w)
                        else
                          (case jwt_verify lib token (env ''SECRET_KEY'') now of
                             Inl e \<Rightarrow>
                               (\<lparr>status = 500,
                                 body = MsgError ''Error changing password'' e\<rparr>, w)
                           | Inr decoded \<Rightarrow>
                               if o_id (jwt_user decoded) = []
                               then (\<lparr>status = 401, body = Msg ''Invalid token payload''\<rparr>, w)
                               else
                                 (case findById (users w) (o_id (jwt_user decoded)) of
                                    None \<Rightarrow> (\<lparr>status = 404, body = Msg ''User not found''\<rparr>, w)
                                  | Some user \<Rightarrow>
                                      (case verifyPassword pbkdf2Sync (JStr old)
                                              (JStr (password (doc user))) of
                                         Inl e \<Rightarrow>
                                           (\<lparr>status = 500,
                                             body = MsgError ''Error changing password'' e\<rparr>, w)
                                       | Inr validPassword \<Rightarrow>
                                           if \<not> validPassword
                                           then (\<lparr>status = 400,
                                                  body = Msg ''Old password is incorrect''\<rparr>, w)
                                           else
                                             (case save pbkdf2Sync validate (set_password new user)
                                                     (users w) (entropy w) of
                                                (Inl e, db', g') \<Rightarrow>
                                                  (\<lparr>status = 500,
                                                    body = MsgError ''Error changing password'' e\<rparr>,
                                                   \<lparr>users = db', files = files w, entropy = g'\<rparr>)
                                              | (Inr saved, db', g') \<Rightarrow>
                                                  (\<lparr>status = 200,
                                                    body = Msg ''Password changed successfully''\<rparr>,
                                                   \<lparr>users = db', files = files w,
                                                    entropy = g'\<rparr>)))))
                    | _ \<Rightarrow>
                        (\<lparr>status = 400,
                          body = Msg ''Old password and new password are required''\<rparr>, w))))"

section \<open>Facts about the helpers\<close>

lemma hex_digit_is_hex: "is_hex_char (hex_digit n)"
proof -
  have "n mod 16 < length hex_alphabet"
    by (simp add: hex_alphabet_def)
  then show ?thesis
    unfolding hex_digit_def is_hex_char_def by (rule nth_mem)
qed

lemma is_hex_char_not_dollar: "is_hex_char c \<Longrightarrow> c \<noteq> CHR ''$''"
  by (auto simp: is_hex_char_def hex_alphabet_def)

lemma toHex_all_hex: "list_all is_hex_char (toHex bs)"
  by (induction bs) (simp_all add: toHex_def hex_byte_def hex_digit_is_hex)

lemma length_toHex: "length (toHex bs) = 2 * length bs"
  by (induction bs) (simp_all add: toHex_def hex_byte_def)

lemma dollar_notin_toHex: "CHR ''$'' \<notin> set (toHex bs)"
  using toHex_all_hex [of bs] is_hex_char_not_dollar
  by (auto simp: list_all_iff)

lemma js_split_nonempty: "js_split sep s \<noteq> []"
  by (induction s) (auto split: list.splits)

lemma js_split_no_sep: "sep \<notin> set s \<Longrightarrow> js_split sep s = [s]"
  by (induction s) auto

lemma js_split_append:
  "sep \<notin> set a \<Longrightarrow> js_split sep (a @ sep # b) = a # js_split sep b"
  by (induction a) auto

lemma hashPassword_JStr:
  "hashPassword kdf (JStr S) g =
     (Inr (toHex (map g [0..<16]) @ ''$'' @
           toHex (kdf S (toHex (map g [0..<16])) 2048 32 ''sha512'')),
      (\<lambda>i. g (i + 16)))"
  by (simp add: hashPassword_def randomBytes_def Let_def)

lemma js_split_unfold:
  "js_split sep s =
     takeWhile (\<lambda>c. c \<noteq> sep) s #
       (if sep \<in> set s then js_split sep (tl (dropWhile (\<lambda>c. c \<noteq> sep) s)) else [])"
  by (induction s) (auto split: list.splits)

lemma js_split_fields:
  "js_index (js_split sep s) 0 = Some (takeWhile (\<lambda>c. c \<noteq> sep) s)"
  "js_index (js_split sep s) (Suc 0) =
     (if sep \<in> set s
      then Some (takeWhile (\<lambda>c. c \<noteq> sep) (tl (dropWhile (\<lambda>c. c \<noteq> sep) s)))
      else None)"
proof -
  show "js_index (js_split sep s) 0 = Some (takeWhile (\<lambda>c. c \<noteq> sep) s)"
    by (subst js_split_unfold) (simp add: js_index_def)
  show "js_index (js_split sep s) (Suc 0) =
     (if sep \<in> set s
      then Some (takeWhile (\<lambda>c. c \<noteq> sep) (tl (dropWhile (\<lambda>c. c \<noteq> sep) s)))
      else None)"
  proof (cases "sep \<in> set s")
    case True
    have "js_split sep s =
        takeWhile (\<lambda>c. c \<noteq> sep) s # js_split sep (tl (dropWhile (\<lambda>c. c \<noteq> sep) s))"
      using True by (subst js_split_unfold) simp
    also have "js_split sep (tl (dropWhile (\<lambda>c. c \<noteq> sep) s)) =
        takeWhile (\<lambda>c. c \<noteq> sep) (tl (dropWhile (\<lambda>c. c \<noteq> sep) s)) #
          (if sep \<in> set (tl (dropWhile (\<lambda>c. c \<noteq> sep) s))
           then js_split sep (tl (dropWhile (\<lambda>c. c \<noteq> sep) (tl (dropWhile (\<lambda>c. c \<noteq> sep) s))))
           else [])"
      by (rule js_split_unfold)
    finally show ?thesis using True by (simp add: js_index_def)
  next
    case False
    then show ?thesis by (simp add: js_split_no_sep js_index_def)
  qed
qed

lemma verifyPassword_strings:
  "verifyPassword kdf (JStr S) (JStr H) =
     Inr (CHR ''$'' \<in> set H \<and>
          toHex (kdf S (takeWhile (\<lambda>c. c \<noteq> CHR ''$'') H) 2048 32 ''sha512'') =
            takeWhile (\<lambda>c. c \<noteq> CHR ''$'') (tl (dropWhile (\<lambda>c. c \<noteq> CHR ''$'') H)))"
  by (auto simp: verifyPassword_def js_split_fields)

lemma verifyPassword_salt_hash:
  assumes "CHR ''$'' \<notin> set salt" and "CHR ''$'' \<notin> set h"
  shows "verifyPassword kdf (JStr S) (JStr (salt @ CHR ''$'' # h)) =
           Inr (toHex (kdf S salt 2048 32 ''sha512'') = h)"
  using assms
  by (simp add: verifyPassword_def js_split_append js_split_no_sep js_index_def)


lemma hex_digit_inj:
  "m < 16 \<Longrightarrow> n < 16 \<Longrightarrow> hex_digit m = hex_digit n \<Longrightarrow> m = n"
proof -
  assume m: "m < 16" and n: "n < 16" and e: "hex_digit m = hex_digit n"
  have d: "distinct hex_alphabet"
    by (simp add: hex_alphabet_def)
  have "m < length hex_alphabet" and "n < length hex_alphabet"
    using m n by (simp_all add: hex_alphabet_def)
  with d e m n show "m = n"
    by (simp add: hex_digit_def nth_eq_iff_index_eq)
qed

lemma hex_byte_inj: "hex_byte a = hex_byte b \<Longrightarrow> a = b"
proof -
  assume h: "hex_byte a = hex_byte b"
  have la: "unat a < 256" and lb: "unat b < 256"
    using unsigned_less [of a] unsigned_less [of b] by simp_all
  have "unat a div 16 = unat b div 16"
    using h la lb by (intro hex_digit_inj) (simp_all add: hex_byte_def less_mult_imp_div_less)
  moreover have "unat a mod 16 = unat b mod 16"
    using h by (intro hex_digit_inj) (simp_all add: hex_byte_def)
  ultimately have "unat a = unat b"
    by (metis div_mult_mod_eq)
  then show "a = b" by (rule word_unat_eq_iff [THEN iffD2])
qed

lemma toHex_inj: "toHex xs = toHex ys \<Longrightarrow> xs = ys"
proof (induction xs arbitrary: ys)
  case Nil
  then show ?case by (cases ys) (simp_all add: toHex_def hex_byte_def)
next
  case (Cons x xs)
  then show ?case
  proof (cases ys)
    case Nil
    with Cons.prems show ?thesis by (simp add: toHex_def hex_byte_def)
  next
    case (Cons y ys')
    with Cons.prems have "hex_byte x @ toHex xs = hex_byte y @ toHex ys'"
      by (simp add: toHex_def)
    then have "hex_byte x = hex_byte y" and "toHex xs = toHex ys'"
      by (simp_all add: hex_byte_def)
    with Cons.IH Cons show ?thesis by (simp add: hex_byte_inj)
  qed
qed

lemma verify_spec_one_dollar:
  assumes "count_list H (CHR ''$'') \<le> 1"
  shows "verifyPassword kdf (JStr S) (JStr H) = Inr (verify_spec kdf S H)"
proof (cases "CHR ''$'' \<in> set H")
  case False
  then show ?thesis
    by (simp add: verifyPassword_strings verify_spec_def split_first_def)
next
  case True
  let ?rest = "tl (dropWhile (\<lambda>c. c \<noteq> CHR ''$'') H)"
  have ne: "dropWhile (\<lambda>c. c \<noteq> CHR ''$'') H \<noteq> []"
    using True by (simp add: dropWhile_eq_Nil_conv)
  then have "hd (dropWhile (\<lambda>c. c \<noteq> CHR ''$'') H) = CHR ''$''"
    using hd_dropWhile [of "\<lambda>c. c \<noteq> CHR ''$''" H] by simp
  with ne have "dropWhile (\<lambda>c. c \<noteq> CHR ''$'') H = CHR ''$'' # ?rest"
    by (cases "dropWhile (\<lambda>c. c \<noteq> CHR ''$'') H") simp_all
  then have H: "H = takeWhile (\<lambda>c. c \<noteq> CHR ''$'') H @ CHR ''$'' # ?rest"
    using takeWhile_dropWhile_id [of "\<lambda>c. c \<noteq> CHR ''$''" H] by simp
  have "count_list (takeWhile (\<lambda>c. c \<noteq> CHR ''$'') H @ CHR ''$'' # ?rest) (CHR ''$'') \<le> 1"
    using assms H by simp
  then have "count_list ?rest (CHR ''$'') = 0"
    by simp
  then have "CHR ''$'' \<notin> set ?rest"
    by (simp add: count_list_0_iff)
  then have tw: "takeWhile (\<lambda>c. c \<noteq> CHR ''$'') ?rest = ?rest"
    by (intro takeWhile_eq_all_conv [THEN iffD2] ballI) blast
  show ?thesis
    by (simp add: verifyPassword_strings verify_spec_def split_first_def True tw)
qed

lemma verifyPassword_total: "\<exists>b. verifyPassword kdf (JStr S) (JStr H) = Inr b"
  by (simp add: verifyPassword_strings)

lemma verifyPassword_bad_hash_field:
  assumes "length (kdf S (takeWhile (\<lambda>c. c \<noteq> CHR ''$'') H) 2048 32 ''sha512'') = 32"
    and "\<not> hash_field_ok H"
  shows "verifyPassword kdf (JStr S) (JStr H) = Inr False"
proof (cases "CHR ''$'' \<in> set H")
  case False
  then show ?thesis by (simp add: verifyPassword_strings)
next
  case True
  let ?h = "takeWhile (\<lambda>c. c \<noteq> CHR ''$'') (tl (dropWhile (\<lambda>c. c \<noteq> CHR ''$'') H))"
  let ?d = "toHex (kdf S (takeWhile (\<lambda>c. c \<noteq> CHR ''$'') H) 2048 32 ''sha512'')"
  have "\<not> (length ?h = 64 \<and> list_all is_hex_char ?h)"
    using assms(2) True by (simp add: hash_field_ok_def js_split_fields)
  moreover have "length ?d = 64 \<and> list_all is_hex_char ?d"
    by (simp add: length_toHex assms(1) toHex_all_hex)
  ultimately have "?d \<noteq> ?h" by metis
  then show ?thesis by (simp add: verifyPassword_strings)
qed

lemma bearer_token:
  assumes "token \<noteq> []" and "CHR '' '' \<notin> set token"
  shows "js_index (js_split (CHR '' '') (''Bearer '' @ token)) 1 = Some token"
proof -
  have "js_split (CHR '' '') (''Bearer'' @ CHR '' '' # token) = ''Bearer'' # js_split (CHR '' '') token"
    by (rule js_split_append) simp
  then show ?thesis
    using assms by (simp add: js_split_no_sep js_index_def)
qed

lemma jwt_verify_minted:
  assumes "key \<noteq> []"
    and "decode lib (encode lib (mint_token lib P key ttl now)) = Some (mint_token lib P key ttl now)"
  shows "jwt_verify lib (encode lib (mint_token lib P key ttl now)) (Some key) now' =
           (if now + ttl \<le> now' then Inl TokenExpiredError
            else Inr \<lparr>jwt_user = P, jwt_iat = now, jwt_exp = now + ttl\<rparr>)"
  using assms by (simp add: jwt_verify_def mint_token_def Let_def)

lemma jwt_verify_no_key:
  "falsy key \<Longrightarrow> jwt_verify lib token key now = Inl JsonWebTokenError"
  by (simp add: jwt_verify_def falsy_def split: option.splits)

subsection \<open>Saving documents\<close>

lemma pre_save_unmodified:
  "\<not> isModified ''password'' d \<Longrightarrow> pre_save kdf d g = (Inr d, g)"
  by (simp add: pre_save_def)

lemma pre_save_modified:
  assumes "isModified ''password'' d" and "password (doc d) \<noteq> []"
  shows "pre_save kdf d g =
           (Inr (d\<lparr>doc := (doc d)\<lparr>password :=
                   toHex (map g [0..<16]) @ ''$'' @
                   toHex (kdf (password (doc d)) (toHex (map g [0..<16])) 2048 32 ''sha512'')\<rparr>\<rparr>),
            (\<lambda>i. g (i + 16)))"
  using assms by (simp add: pre_save_def hashPassword_JStr)

lemma save_loaded_avatar:
  assumes "db ident = Some f"
  shows "save kdf validate (set_avatar v \<lparr>doc_id = ident, doc = f, modifiedPaths = []\<rparr>) db g =
           (if validate (f\<lparr>avatar := v\<rparr>)
            then (Inr \<lparr>doc_id = ident, doc = f\<lparr>avatar := v\<rparr>, modifiedPaths = []\<rparr>,
                  db(ident \<mapsto> f\<lparr>avatar := v\<rparr>), g)
            else (Inl ValidationError, db, g))"
  by (auto simp: save_def set_avatar_def pre_save_def isModified_def)

lemma delete_avatar_password:
  "map_option password (users (snd (delete_avatar kdf validate ident w)) i) =
     map_option password (users w i)"
  by (cases "users w ident")
     (auto simp: delete_avatar_def findById_def save_loaded_avatar Let_def)

lemma delete_avatar_entropy:
  "entropy (snd (delete_avatar kdf validate ident w)) = entropy w"
  by (cases "users w ident")
     (auto simp: delete_avatar_def findById_def save_loaded_avatar Let_def)

lemma post_avatar_password:
  "map_option password (users (snd (post_avatar kdf validate ident file w)) i) =
     map_option password (users w i)"
  by (cases "file"; cases "users w ident")
     (auto simp: post_avatar_def findById_def save_loaded_avatar Let_def)

lemma post_avatar_entropy:
  "entropy (snd (post_avatar kdf validate ident file w)) = entropy w"
  by (cases "file"; cases "users w ident")
     (auto simp: post_avatar_def findById_def save_loaded_avatar Let_def)


lemma save_unmodified_password:
  assumes "\<not> isModified ''password'' d"
    and "map_option password (db (doc_id d)) = Some (password (doc d))"
  shows "map_option password (fst (snd (save kdf validate d db g)) i) = map_option password (db i)"
    and "snd (snd (save kdf validate d db g)) = g"
  using assms by (auto simp: save_def pre_save_unmodified)

text \<open>
  The password change of \<open>POST /auth/change-password\<close> goes through \<open>save\<close>: when the
  route answers 200, the stored password of the user is a fresh derivation of the new
  password (or, the new password being the very string already stored, is left as it was).
\<close>

lemma save_set_password:
  assumes "db ident = Some f" and "new \<noteq> []" and "new \<noteq> password f"
    and "validate (f\<lparr>password := new\<rparr>)"
  shows "save kdf validate (set_password new \<lparr>doc_id = ident, doc = f, modifiedPaths = []\<rparr>) db g =
           (Inr \<lparr>doc_id = ident,
                 doc = f\<lparr>password := toHex (map g [0..<16]) @ ''$'' @
                         toHex (kdf new (toHex (map g [0..<16])) 2048 32 ''sha512'')\<rparr>,
                 modifiedPaths = []\<rparr>,
            db(ident \<mapsto> f\<lparr>password := toHex (map g [0..<16]) @ ''$'' @
                         toHex (kdf new (toHex (map g [0..<16])) 2048 32 ''sha512'')\<rparr>),
            (\<lambda>i. g (i + 16)))"
  using assms
  by (simp add: save_def set_password_def pre_save_def isModified_def hashPassword_JStr)

lemma change_password_200:
  assumes "status (fst (change_password lib kdf validate env now auth old new w)) = 200"
  shows "\<exists>h token oldp pw decoded f d db' g'.
           auth = Some h \<and> h \<noteq> [] \<and>
           js_index (js_split (CHR '' '') h) 1 = Some token \<and> token \<noteq> [] \<and>
           old = Some oldp \<and> new = Some pw \<and> oldp \<noteq> [] \<and> pw \<noteq> [] \<and>
           jwt_verify lib token (env ''SECRET_KEY'') now = Inr decoded \<and>
           o_id (jwt_user decoded) \<noteq> [] \<and>
           users w (o_id (jwt_user decoded)) = Some f \<and>
           verifyPassword kdf (JStr oldp) (JStr (password f)) = Inr True \<and>
           save kdf validate
             (set_password pw \<lparr>doc_id = o_id (jwt_user decoded), doc = f, modifiedPaths = []\<rparr>)
             (users w) (entropy w) = (Inr d, db', g') \<and>
           snd (change_password lib kdf validate env now auth old new w) =
             \<lparr>users = db', files = files w, entropy = g'\<rparr>"
  using assms unfolding change_password_def findById_def
  by (simp split: option.split_asm if_split_asm sum.split_asm prod.split_asm) auto

lemma change_password_stores_derived_hash:
  assumes "status (fst (change_password lib kdf validate env now auth old new w)) = 200"
  shows "\<exists>ident f pw.
           new = Some pw \<and> users w ident = Some f \<and>
           (if pw = password f
            then users (snd (change_password lib kdf validate env now auth old new w)) ident =
                   Some f
            else users (snd (change_password lib kdf validate env now auth old new w)) ident =
                   Some (f\<lparr>password := toHex (map (entropy w) [0..<16]) @ ''$'' @
                     toHex (kdf pw (toHex (map (entropy w) [0..<16])) 2048 32 ''sha512'')\<rparr>))"
proof -
  from change_password_200 [OF assms]
  obtain h token oldp pw decoded f d db' g' where
    "auth = Some h \<and> h \<noteq> [] \<and>
     js_index (js_split (CHR '' '') h) 1 = Some token \<and> token \<noteq> [] \<and>
     old = Some oldp \<and> new = Some pw \<and> oldp \<noteq> [] \<and> pw \<noteq> [] \<and>
     jwt_verify lib token (env ''SECRET_KEY'') now = Inr decoded \<and>
     o_id (jwt_user decoded) \<noteq> [] \<and>
     users w (o_id (jwt_user decoded)) = Some f \<and>
     verifyPassword kdf (JStr oldp) (JStr (password f)) = Inr True \<and>
     save kdf validate
       (set_password pw \<lparr>doc_id = o_id (jwt_user decoded), doc = f, modifiedPaths = []\<rparr>)
       (users w) (entropy w) = (Inr d, db', g') \<and>
     snd (change_password lib kdf validate env now auth old new w) =
       \<lparr>users = db', files = files w, entropy = g'\<rparr>"
    by (elim exE) (rule that)
  then have
    n: "new = Some pw" and pw: "pw \<noteq> []" and
    f: "users w (o_id (jwt_user decoded)) = Some f" and
    sv: "save kdf validate
           (set_password pw \<lparr>doc_id = o_id (jwt_user decoded), doc = f, modifiedPaths = []\<rparr>)
           (users w) (entropy w) = (Inr d, db', g')" and
    w': "snd (change_password lib kdf validate env now auth old new w) =
           \<lparr>users = db', files = files w, entropy = g'\<rparr>"
    by blast+
  let ?ident = "o_id (jwt_user decoded)"
  have v: "validate (doc (set_password pw \<lparr>doc_id = ?ident, doc = f, modifiedPaths = []\<rparr>))"
    using sv by (auto simp: save_def split: if_splits)
  show ?thesis
  proof (cases "pw = password f")
    case True
    then have "db' = (users w)(?ident \<mapsto> f)"
      using sv v by (simp add: save_def set_password_def pre_save_def isModified_def)
    with w' have "users (snd (change_password lib kdf validate env now auth old new w)) ?ident =
        Some f"
      by simp
    with True n f show ?thesis
      by (intro exI [of _ ?ident] exI [of _ f] exI [of _ pw]) simp
  next
    case False
    then have "validate (f\<lparr>password := pw\<rparr>)"
      using v by (simp add: set_password_def)
    with save_set_password [of "users w" ?ident f pw validate kdf "entropy w"] f pw False sv
    have "db' = (users w)(?ident \<mapsto> f\<lparr>password := toHex (map (entropy w) [0..<16]) @ ''$'' @
                     toHex (kdf pw (toHex (map (entropy w) [0..<16])) 2048 32 ''sha512'')\<rparr>)"
      by simp
    with w' have "users (snd (change_password lib kdf validate env now auth old new w)) ?ident =
        Some (f\<lparr>password := toHex (map (entropy w) [0..<16]) @ ''$'' @
                     toHex (kdf pw (toHex (map (entropy w) [0..<16])) 2048 32 ''sha512'')\<rparr>)"
      by simp
    with False n f show ?thesis
      by (intro exI [of _ ?ident] exI [of _ f] exI [of _ pw]) simp
  qed
qed

subsection \<open>What the code accepts and stores, whatever the key-derivation function\<close>

text \<open>
  A stored value with a third \<open>$\<close>-separated piece, and a stored value with any salt
  that is free of \<open>$\<close>, verify when the second piece is the hash derived with the first.
\<close>

lemma split_first_append:
  "sep \<notin> set a \<Longrightarrow> split_first sep (a @ sep # b) = Some (a, b)"
  by (induction a) (auto simp: split_first_def)

lemma verifyPassword_extra_field:
  assumes "CHR ''$'' \<notin> set salt"
  shows "verifyPassword kdf (JStr S)
           (JStr (salt @ ''$'' @ toHex (kdf S salt 2048 32 ''sha512'') @ ''$'' @ rest)) = Inr True"
    and "\<not> verify_spec kdf S (salt @ ''$'' @ toHex (kdf S salt 2048 32 ''sha512'') @ ''$'' @ rest)"
proof -
  let ?h = "toHex (kdf S salt 2048 32 ''sha512'')"
  have s: "js_split (CHR ''$'') (salt @ CHR ''$'' # ?h @ CHR ''$'' # rest) =
             salt # ?h # js_split (CHR ''$'') rest"
    using assms by (simp add: js_split_append dollar_notin_toHex)
  show "verifyPassword kdf (JStr S) (JStr (salt @ ''$'' @ ?h @ ''$'' @ rest)) = Inr True"
    using s by (simp add: verifyPassword_def js_index_def)
  have "toHex (kdf S salt 2048 32 ''sha512'') \<noteq> ?h @ CHR ''$'' # rest"
    by simp
  then show "\<not> verify_spec kdf S (salt @ ''$'' @ ?h @ ''$'' @ rest)"
    using split_first_append [OF assms, of "?h @ CHR ''$'' # rest"]
    by (simp add: verify_spec_def)
qed

lemma verifyPassword_any_salt:
  assumes "CHR ''$'' \<notin> set salt"
  shows "verifyPassword kdf (JStr S) (JStr (salt @ ''$'' @ toHex (kdf S salt 2048 32 ''sha512''))) =
           Inr True"
  using assms by (simp add: verifyPassword_salt_hash dollar_notin_toHex)

text \<open>\<open>PUT /user/:id\<close> stores a non-blank password of the body as it is.\<close>

lemma put_user_password_verbatim:
  assumes "db ident = Some f" and "p_password b = Some pw" and "js_trim pw \<noteq> []"
  shows "map_option password (snd (put_user ident (Some b) db) ident) = Some pw"
proof -
  have "pw \<noteq> []"
    using assms(3) by (auto simp: js_trim_def)
  then show ?thesis
    using assms by (simp add: put_user_def findByIdAndUpdate_def apply_patch_def)
qed

section \<open>The password hasher: claims\<close>

text \<open>
  C1. For every secret string \<open>S\<close> and every state of the random source, deriving a
  stored hash from \<open>S\<close> succeeds, and verifying \<open>S\<close> against that stored hash
  returns true. The key-derivation function is arbitrary.
\<close>

theorem verify_derived:
  "\<exists>h. fst (hashPassword kdf (JStr S) g) = Inr h \<and>
       verifyPassword kdf (JStr S) (JStr h) = Inr True"
  by (simp add: hashPassword_JStr verifyPassword_salt_hash dollar_notin_toHex)

text \<open>
  C2. For every secret string \<open>S\<close>, \<open>hashPassword\<close> takes 16 bytes from the random
  source, hex-encodes them as the salt, runs the key-derivation function over the secret
  and the hex-encoded salt with 2048 iterations, 32 bytes of output and digest
  \<open>sha512\<close>, hex-encodes the output and returns \<open>salt + "$" + derivedHash\<close>. When the
  key-derivation function returns the 32 bytes it is asked for, the result has the format
  \<open><32-hex-char salt>$<64-hex-char derivedHash>\<close> with exactly one \<open>$\<close>.
\<close>

theorem hashPassword_stored_hash:
  assumes "length (kdf S (toHex (fst (randomBytes 16 g))) 2048 32 ''sha512'') = 32"
  shows "let bytes = fst (randomBytes 16 g);
             salt = toHex bytes;
             derivedHash = toHex (kdf S salt 2048 32 ''sha512'')
         in length bytes = 16 \<and>
            hashPassword kdf (JStr S) g = (Inr (salt @ ''$'' @ derivedHash), snd (randomBytes 16 g)) \<and>
            length salt = 32 \<and> list_all is_hex_char salt \<and>
            length derivedHash = 64 \<and> list_all is_hex_char derivedHash \<and>
            stored_hash_format (salt @ ''$'' @ derivedHash) \<and>
            count_list (salt @ ''$'' @ derivedHash) (CHR ''$'') = 1"
proof -
  let ?bytes = "fst (randomBytes 16 g)"
  let ?salt = "toHex ?bytes"
  let ?hash = "toHex (kdf S ?salt 2048 32 ''sha512'')"
  have lb: "length ?bytes = 16"
    by (simp add: randomBytes_def)
  have ls: "length ?salt = 32"
    by (simp add: length_toHex lb)
  have lh: "length ?hash = 64"
    by (simp add: length_toHex assms)
  have hp: "hashPassword kdf (JStr S) g = (Inr (?salt @ ''$'' @ ?hash), snd (randomBytes 16 g))"
    by (simp add: hashPassword_def Let_def split: prod.splits)
  have fmt: "stored_hash_format (?salt @ ''$'' @ ?hash)"
    using ls lh by (simp add: stored_hash_format_def toHex_all_hex)
  have cnt: "count_list (?salt @ ''$'' @ ?hash) (CHR ''$'') = 1"
    using dollar_notin_toHex by (simp add: count_list_0_iff)
  show ?thesis
    unfolding Let_def using lb ls lh hp fmt cnt toHex_all_hex by blast
qed

theorem hashPassword_stored_hash_witness:
  "length ((\<lambda>p s c n d. replicate n (171 :: byte)) ''correct-horse-battery''
      (toHex (fst (randomBytes 16 (\<lambda>i. of_nat i)))) 2048 32 ''sha512'') = 32 \<and>
   fst (hashPassword (\<lambda>p s c n d. replicate n 171) (JStr ''correct-horse-battery'') (\<lambda>i. of_nat i)) =
     Inr ''000102030405060708090a0b0c0d0e0f$abababababababababababababababababababababababababababababababab'' \<and>
   stored_hash_format
     ''000102030405060708090a0b0c0d0e0f$abababababababababababababababababababababababababababababababab''"
proof -
  have h: "length ((\<lambda>p s c n d. replicate n (171 :: byte)) ''correct-horse-battery''
      (toHex (fst (randomBytes 16 (\<lambda>i. of_nat i)))) 2048 32 ''sha512'') = 32"
    by simp
  have s: "toHex (fst (randomBytes 16 (\<lambda>i. of_nat i))) = ''000102030405060708090a0b0c0d0e0f''"
    by code_simp
  have d: "toHex (replicate 32 (171 :: byte)) =
      ''abababababababababababababababababababababababababababababababab''"
    by code_simp
  show ?thesis
    using hashPassword_stored_hash
            [of "\<lambda>p s c n d. replicate n 171" "''correct-horse-battery''" "\<lambda>i. of_nat i"]
    by (simp add: Let_def s d)
qed

text \<open>
  C3, as the code has it. \<open>verifyPassword\<close> cuts the stored hash at every \<open>$\<close>: the
  salt is the text before the first \<open>$\<close>, the expected hash is the text between the
  first \<open>$\<close> and the next one (or the end). It returns true exactly when the stored
  hash contains a \<open>$\<close> and the newly derived hex string equals that expected hash.
  For a stored hash with at most one \<open>$\<close> this is the split on the first \<open>$\<close>.
\<close>

theorem verifyPassword_fields:
  "verifyPassword kdf (JStr S) (JStr H) =
     Inr (CHR ''$'' \<in> set H \<and>
          toHex (kdf S (takeWhile (\<lambda>c. c \<noteq> CHR ''$'') H) 2048 32 ''sha512'') =
            takeWhile (\<lambda>c. c \<noteq> CHR ''$'') (tl (dropWhile (\<lambda>c. c \<noteq> CHR ''$'') H))) \<and>
   (count_list H (CHR ''$'') \<le> 1 \<longrightarrow>
      verifyPassword kdf (JStr S) (JStr H) = Inr (verify_spec kdf S H))"
  using verifyPassword_strings verify_spec_one_dollar by blast

theorem verifyPassword_fields_witness:
  "count_list ''ab$abababababababababababababababababababababababababababababababab'' (CHR ''$'') \<le> 1 \<and>
   verifyPassword (\<lambda>p s c n d. replicate n 171) (JStr ''pw'')
      (JStr ''ab$abababababababababababababababababababababababababababababababab'') = Inr True \<and>
   verify_spec (\<lambda>p s c n d. replicate n 171) ''pw''
      ''ab$abababababababababababababababababababababababababababababababab''"
proof -
  have c: "count_list ''ab$abababababababababababababababababababababababababababababababab''
             (CHR ''$'') \<le> 1"
    by simp
  have v: "verify_spec (\<lambda>p s c n d. replicate n 171) ''pw''
      ''ab$abababababababababababababababababababababababababababababababab''"
    by code_simp
  have "verifyPassword (\<lambda>p s c n d. replicate n 171) (JStr ''pw'')
      (JStr ''ab$abababababababababababababababababababababababababababababababab'') =
      Inr (verify_spec (\<lambda>p s c n d. replicate n 171) ''pw''
      ''ab$abababababababababababababababababababababababababababababababab'')"
    using verifyPassword_fields [of "\<lambda>p s c n d. replicate n 171" "''pw''"
        "''ab$abababababababababababababababababababababababababababababababab''",
        THEN conjunct2] c
    by (rule mp)
  with c v show ?thesis
    by (simp only: simp_thms)
qed

text \<open>
  C3, as the claim words it, fails on a stored hash with a second \<open>$\<close>: the code
  compares with the middle piece and accepts, while the text after the first \<open>$\<close>
  is not the derived hex string.
\<close>

theorem verifyPassword_split_first_counterexample:
  "\<not> (\<forall>kdf S H. verifyPassword kdf (JStr S) (JStr H) = Inr (verify_spec kdf S H))"
proof
  assume a: "\<forall>kdf S H. verifyPassword kdf (JStr S) (JStr H) = Inr (verify_spec kdf S H)"
  let ?kdf = "\<lambda>(p::string) (s::string) (c::nat) (n::nat) (d::string). replicate n (171 :: byte)"
  let ?H = "''ab$abababababababababababababababababababababababababababababababab$x''"
  have code: "verifyPassword ?kdf (JStr ''pw'') (JStr ?H) = Inr True"
    by code_simp
  have claim: "\<not> verify_spec ?kdf ''pw'' ?H"
    by code_simp
  have "verifyPassword ?kdf (JStr ''pw'') (JStr ?H) = Inr (verify_spec ?kdf ''pw'' ?H)"
    using a [rule_format, of ?kdf "''pw''" ?H] .
  with code claim show False by simp
qed

text \<open>
  C4, as the code has it. On strings \<open>verifyPassword\<close> always returns a boolean and
  raises nothing. It returns false when the stored hash has no \<open>$\<close>, and, the
  key-derivation function returning 32 bytes, whenever the second piece of the stored hash
  is missing or is not 64 lowercase hexadecimal characters.
\<close>

theorem verifyPassword_malformed:
  "(\<exists>b. verifyPassword kdf (JStr S) (JStr H) = Inr b) \<and>
   (CHR ''$'' \<notin> set H \<longrightarrow> verifyPassword kdf (JStr S) (JStr H) = Inr False) \<and>
   (length (kdf S (takeWhile (\<lambda>c. c \<noteq> CHR ''$'') H) 2048 32 ''sha512'') = 32 \<and>
    \<not> hash_field_ok H \<longrightarrow>
      verifyPassword kdf (JStr S) (JStr H) = Inr False)"
  using verifyPassword_total [of kdf S H] verifyPassword_bad_hash_field [of kdf S H]
  by (simp add: verifyPassword_strings)

theorem verifyPassword_malformed_witness:
  "CHR ''$'' \<notin> set ''not-a-stored-hash'' \<and>
   verifyPassword (\<lambda>p s c n d. replicate n 171) (JStr ''pw'') (JStr ''not-a-stored-hash'') = Inr False \<and>
   length ((\<lambda>p s c n d. replicate n (171 :: byte)) ''pw''
      (takeWhile (\<lambda>c. c \<noteq> CHR ''$'') ''0011$xyz'') 2048 32 ''sha512'') = 32 \<and>
   \<not> hash_field_ok ''0011$xyz'' \<and>
   verifyPassword (\<lambda>p s c n d. replicate n 171) (JStr ''pw'') (JStr ''0011$xyz'') = Inr False"
proof -
  have a: "CHR ''$'' \<notin> set ''not-a-stored-hash''"
    by simp
  have b: "\<not> hash_field_ok ''0011$xyz''"
    by code_simp
  show ?thesis
    using verifyPassword_malformed [of "\<lambda>p s c n d. replicate n 171" "''pw''" "''not-a-stored-hash''"]
          verifyPassword_malformed [of "\<lambda>p s c n d. replicate n 171" "''pw''" "''0011$xyz''"] a b
    by simp
qed

text \<open>
  C4, as the claim words it, fails: a stored hash whose salt is not hexadecimal is
  malformed, and the code accepts it when its second piece is the hash derived with that
  salt.
\<close>

theorem verifyPassword_malformed_counterexample:
  "\<not> (\<forall>kdf S H. (\<forall>p s. length (kdf p s 2048 32 ''sha512'') = 32) \<longrightarrow>
         \<not> stored_hash_format H \<longrightarrow> verifyPassword kdf (JStr S) (JStr H) = Inr False)"
proof
  assume a: "\<forall>kdf S H. (\<forall>p s. length (kdf p s 2048 32 ''sha512'') = 32) \<longrightarrow>
         \<not> stored_hash_format H \<longrightarrow> verifyPassword kdf (JStr S) (JStr H) = Inr False"
  let ?kdf = "\<lambda>(p::string) (s::string) (c::nat) (n::nat) (d::string). replicate n (171 :: byte)"
  let ?H = "''zz$abababababababababababababababababababababababababababababababab''"
  have len: "\<forall>p s. length (?kdf p s 2048 32 ''sha512'') = 32"
    by simp
  have bad: "\<not> stored_hash_format ?H"
    by code_simp
  have code: "verifyPassword ?kdf (JStr ''pw'') (JStr ?H) = Inr True"
    by code_simp
  have "verifyPassword ?kdf (JStr ''pw'') (JStr ?H) = Inr False"
    using a [rule_format, of ?kdf ?H "''pw''"] len bad by simp
  with code show False by simp
qed

text \<open>
  C9. For every secret string \<open>S\<close>, when the random source delivers two different salts
  to two successive calls of \<open>hashPassword\<close>, the two stored hashes differ and both
  verify against \<open>S\<close>.
\<close>

theorem two_derivations_differ_and_verify:
  assumes "fst (randomBytes 16 g) \<noteq> fst (randomBytes 16 (snd (randomBytes 16 g)))"
  shows "\<exists>h1 g1 h2 g2.
           hashPassword kdf (JStr S) g = (Inr h1, g1) \<and>
           hashPassword kdf (JStr S) g1 = (Inr h2, g2) \<and>
           h1 \<noteq> h2 \<and>
           verifyPassword kdf (JStr S) (JStr h1) = Inr True \<and>
           verifyPassword kdf (JStr S) (JStr h2) = Inr True"
proof -
  let ?g1 = "snd (randomBytes 16 g)"
  let ?s1 = "toHex (fst (randomBytes 16 g))"
  let ?s2 = "toHex (fst (randomBytes 16 ?g1))"
  let ?h1 = "?s1 @ CHR ''$'' # toHex (kdf S ?s1 2048 32 ''sha512'')"
  let ?h2 = "?s2 @ CHR ''$'' # toHex (kdf S ?s2 2048 32 ''sha512'')"
  have e1: "hashPassword kdf (JStr S) g = (Inr ?h1, ?g1)"
    by (simp add: hashPassword_def Let_def split: prod.splits)
  have e2: "hashPassword kdf (JStr S) ?g1 = (Inr ?h2, snd (randomBytes 16 ?g1))"
    by (simp add: hashPassword_def Let_def split: prod.splits)
  have "?s1 \<noteq> ?s2"
    using assms toHex_inj by blast
  moreover have "length ?s1 = length ?s2"
    by (simp add: length_toHex randomBytes_def)
  ultimately have ne: "?h1 \<noteq> ?h2"
    by simp
  have v1: "verifyPassword kdf (JStr S) (JStr ?h1) = Inr True"
    by (simp add: verifyPassword_salt_hash dollar_notin_toHex)
  have v2: "verifyPassword kdf (JStr S) (JStr ?h2) = Inr True"
    by (simp add: verifyPassword_salt_hash dollar_notin_toHex)
  show ?thesis
    using e1 e2 ne v1 v2 by blast
qed

theorem two_derivations_differ_and_verify_witness:
  "fst (randomBytes 16 (\<lambda>i. of_nat i)) \<noteq>
     fst (randomBytes 16 (snd (randomBytes 16 (\<lambda>i. of_nat i)))) \<and>
   (\<exists>h1 g1 h2 g2.
       hashPassword (\<lambda>p s c n d. replicate n 171) (JStr ''pw'') (\<lambda>i. of_nat i) = (Inr h1, g1) \<and>
       hashPassword (\<lambda>p s c n d. replicate n 171) (JStr ''pw'') g1 = (Inr h2, g2) \<and>
       h1 \<noteq> h2 \<and>
       verifyPassword (\<lambda>p s c n d. replicate n 171) (JStr ''pw'') (JStr h1) = Inr True \<and>
       verifyPassword (\<lambda>p s c n d. replicate n 171) (JStr ''pw'') (JStr h2) = Inr True)"
proof -
  have h: "fst (randomBytes 16 (\<lambda>i. of_nat i)) \<noteq>
     fst (randomBytes 16 (snd (randomBytes 16 (\<lambda>i. of_nat i))))"
    by code_simp
  show ?thesis
    using two_derivations_differ_and_verify
            [of "\<lambda>i. of_nat i" "\<lambda>p s c n d. replicate n 171" "''pw''"] h
    by blast
qed

section \<open>The token service: claims\<close>

text \<open>
  C5. With the secret key configured, \<open>generateAccessToken\<close> signs the wrapper
  \<open>{ user: P }\<close> with the key and an expiry 30 minutes after the mint time, and
  \<open>GET /auth/validate\<close>, given that token as \<open>Bearer <token>\<close> before the 30 minutes
  have passed, answers 200 with the decoded payload, whose user field is \<open>P\<close>. The
  token's compact string is assumed to parse back to the token and to be a non-empty
  string without spaces.
\<close>

theorem mint_then_validate:
  assumes "env ''SECRET_KEY'' = Some key" and "key \<noteq> []"
    and "decode lib (encode lib (mint_token lib P key expiresIn now)) =
           Some (mint_token lib P key expiresIn now)"
    and "encode lib (mint_token lib P key expiresIn now) \<noteq> []"
    and "CHR '' '' \<notin> set (encode lib (mint_token lib P key expiresIn now))"
    and "now' < now + 30 * 60"
  shows "\<exists>token decoded.
           generateAccessToken lib env now P = Inr token \<and>
           jwt_verify lib token (env ''SECRET_KEY'') now' = Inr decoded \<and>
           auth_validate lib env now' (Some (''Bearer '' @ token)) =
             \<lparr>status = 200, body = Decoded decoded\<rparr> \<and>
           jwt_user decoded = P \<and> jwt_exp decoded = jwt_iat decoded + 30 * 60"
proof -
  let ?token = "encode lib (mint_token lib P key expiresIn now)"
  let ?decoded = "\<lparr>jwt_user = P, jwt_iat = now, jwt_exp = now + expiresIn\<rparr>"
  have g: "generateAccessToken lib env now P = Inr ?token"
    using assms(1,2) by (simp add: generateAccessToken_def jwt_sign_def)
  have v: "jwt_verify lib ?token (env ''SECRET_KEY'') now' = Inr ?decoded"
    using assms(6) jwt_verify_minted [OF assms(2,3), of now']
    by (simp add: assms(1) expiresIn_def)
  have b: "js_index (js_split (CHR '' '') (''Bearer '' @ ?token)) 1 = Some ?token"
    using assms(4,5) by (rule bearer_token)
  have a: "auth_validate lib env now' (Some (''Bearer '' @ ?token)) =
             \<lparr>status = 200, body = Decoded ?decoded\<rparr>"
    unfolding auth_validate_def using b v assms(4) by simp
  have "jwt_user ?decoded = P \<and> jwt_exp ?decoded = jwt_iat ?decoded + 30 * 60"
    by (simp add: expiresIn_def)
  with g v a show ?thesis by blast
qed

theorem mint_then_validate_witness:
  "\<exists>token decoded.
     generateAccessToken
       \<lparr>mac = (\<lambda>k b. k), encode = (\<lambda>t. ''h.p.s''),
        decode = (\<lambda>s. if s = ''h.p.s''
                      then Some \<lparr>jwt_body = \<lparr>jwt_user = ''u1'', jwt_iat = 1000, jwt_exp = 2800\<rparr>,
                                 jwt_signature = ''secret''\<rparr>
                      else None)\<rparr>
       [''SECRET_KEY'' \<mapsto> ''secret''] 1000 ''u1'' = Inr token \<and>
     auth_validate
       \<lparr>mac = (\<lambda>k b. k), encode = (\<lambda>t. ''h.p.s''),
        decode = (\<lambda>s. if s = ''h.p.s''
                      then Some \<lparr>jwt_body = \<lparr>jwt_user = ''u1'', jwt_iat = 1000, jwt_exp = 2800\<rparr>,
                                 jwt_signature = ''secret''\<rparr>
                      else None)\<rparr>
       [''SECRET_KEY'' \<mapsto> ''secret''] 2799 (Some (''Bearer '' @ token)) =
         \<lparr>status = 200, body = Decoded decoded\<rparr> \<and>
     jwt_user decoded = ''u1''"
  using mint_then_validate
    [of "[''SECRET_KEY'' \<mapsto> ''secret'']" "''secret''"
        "\<lparr>mac = (\<lambda>k b. k), encode = (\<lambda>t. ''h.p.s''),
          decode = (\<lambda>s. if s = ''h.p.s''
                        then Some \<lparr>jwt_body = \<lparr>jwt_user = ''u1'', jwt_iat = 1000, jwt_exp = 2800\<rparr>,
                                   jwt_signature = ''secret''\<rparr>
                        else None)\<rparr>"
        "''u1''" 1000 2799]
  by (simp add: mint_token_def expiresIn_def) blast

text \<open>
  C6. A token minted at time \<open>T\<close> and presented at \<open>T\<close> plus 31 minutes fails
  verification as expired, and \<open>GET /auth/validate\<close> answers 403 with the message
  \<open>Invalid or expired token\<close> instead of the payload.
\<close>

theorem expired_token_rejected:
  assumes "env ''SECRET_KEY'' = Some key" and "key \<noteq> []"
    and "decode lib (encode lib (mint_token lib P key expiresIn now)) =
           Some (mint_token lib P key expiresIn now)"
    and "encode lib (mint_token lib P key expiresIn now) \<noteq> []"
    and "CHR '' '' \<notin> set (encode lib (mint_token lib P key expiresIn now))"
  shows "\<exists>token.
           generateAccessToken lib env now P = Inr token \<and>
           jwt_verify lib token (env ''SECRET_KEY'') (now + 31 * 60) = Inl TokenExpiredError \<and>
           auth_validate lib env (now + 31 * 60) (Some (''Bearer '' @ token)) =
             \<lparr>status = 403, body = MessageError ''Invalid or expired token'' TokenExpiredError\<rparr>"
proof -
  let ?token = "encode lib (mint_token lib P key expiresIn now)"
  have g: "generateAccessToken lib env now P = Inr ?token"
    using assms(1,2) by (simp add: generateAccessToken_def jwt_sign_def)
  have v: "jwt_verify lib ?token (env ''SECRET_KEY'') (now + 31 * 60) = Inl TokenExpiredError"
    using jwt_verify_minted [OF assms(2,3), of "now + 31 * 60"]
    by (simp add: assms(1) expiresIn_def)
  have b: "js_index (js_split (CHR '' '') (''Bearer '' @ ?token)) 1 = Some ?token"
    using assms(4,5) by (rule bearer_token)
  have a: "auth_validate lib env (now + 31 * 60) (Some (''Bearer '' @ ?token)) =
             \<lparr>status = 403, body = MessageError ''Invalid or expired token'' TokenExpiredError\<rparr>"
    unfolding auth_validate_def using b v assms(4) by simp
  with g v show ?thesis by blast
qed

theorem expired_token_rejected_witness:
  "\<exists>token.
     generateAccessToken
       \<lparr>mac = (\<lambda>k b. k), encode = (\<lambda>t. ''h.p.s''),
        decode = (\<lambda>s. if s = ''h.p.s''
                      then Some \<lparr>jwt_body = \<lparr>jwt_user = ''u1'', jwt_iat = 1000, jwt_exp = 2800\<rparr>,
                                 jwt_signature = ''secret''\<rparr>
                      else None)\<rparr>
       [''SECRET_KEY'' \<mapsto> ''secret''] 1000 ''u1'' = Inr token \<and>
     auth_validate
       \<lparr>mac = (\<lambda>k b. k), encode = (\<lambda>t. ''h.p.s''),
        decode = (\<lambda>s. if s = ''h.p.s''
                      then Some \<lparr>jwt_body = \<lparr>jwt_user = ''u1'', jwt_iat = 1000, jwt_exp = 2800\<rparr>,
                                 jwt_signature = ''secret''\<rparr>
                      else None)\<rparr>
       [''SECRET_KEY'' \<mapsto> ''secret''] 2860 (Some (''Bearer '' @ token)) =
         \<lparr>status = 403, body = MessageError ''Invalid or expired token'' TokenExpiredError\<rparr>"
  using expired_token_rejected
    [of "[''SECRET_KEY'' \<mapsto> ''secret'']" "''secret''"
        "\<lparr>mac = (\<lambda>k b. k), encode = (\<lambda>t. ''h.p.s''),
          decode = (\<lambda>s. if s = ''h.p.s''
                        then Some \<lparr>jwt_body = \<lparr>jwt_user = ''u1'', jwt_iat = 1000, jwt_exp = 2800\<rparr>,
                                   jwt_signature = ''secret''\<rparr>
                        else None)\<rparr>"
        "''u1''" 1000]
  by (simp add: mint_token_def expiresIn_def) blast

text \<open>
  C8, as the code has it. When the secret key is not configured, the bootstrap still
  brings the server up; the absence shows inside each call: \<open>generateAccessToken\<close>
  raises, verification fails for every token, and \<open>GET /auth/validate\<close> answers a
  presented token with 403.
\<close>

theorem secret_key_absence_found_in_the_call:
  assumes "falsy (env ''SECRET_KEY'')"
  shows "server_bootstrap env \<noteq> Aborted \<and>
         generateAccessToken lib env now P = Inl Error \<and>
         jwt_verify lib token (env ''SECRET_KEY'') now = Inl JsonWebTokenError \<and>
         (token \<noteq> [] \<and> CHR '' '' \<notin> set token \<longrightarrow>
            auth_validate lib env now (Some (''Bearer '' @ token)) =
              \<lparr>status = 403, body = MessageError ''Invalid or expired token'' JsonWebTokenError\<rparr>)"
proof -
  have s: "server_bootstrap env \<noteq> Aborted"
    by (simp add: server_bootstrap_def)
  have g: "generateAccessToken lib env now P = Inl Error"
    using assms by (simp add: generateAccessToken_def jwt_sign_def falsy_def split: option.splits)
  have v: "jwt_verify lib token (env ''SECRET_KEY'') now = Inl JsonWebTokenError"
    using assms by (rule jwt_verify_no_key)
  have a: "auth_validate lib env now (Some (''Bearer '' @ token)) =
              \<lparr>status = 403, body = MessageError ''Invalid or expired token'' JsonWebTokenError\<rparr>"
    if "token \<noteq> []" and "CHR '' '' \<notin> set token"
    unfolding auth_validate_def using bearer_token [OF that] v that(1) by simp
  from s g v a show ?thesis by blast
qed

theorem secret_key_absence_found_in_the_call_witness:
  "falsy (Map.empty ''SECRET_KEY'') \<and>
   server_bootstrap Map.empty \<noteq> Aborted \<and>
   generateAccessToken
     \<lparr>mac = (\<lambda>k b. k), encode = (\<lambda>t. ''h.p.s''), decode = (\<lambda>s. None)\<rparr>
     Map.empty 1000 ''u1'' = Inl Error \<and>
   auth_validate
     \<lparr>mac = (\<lambda>k b. k), encode = (\<lambda>t. ''h.p.s''),
      decode = (\<lambda>s. None :: (string, string) jwt option)\<rparr>
     Map.empty 1000 (Some ''Bearer h.p.s'') =
       \<lparr>status = 403, body = MessageError ''Invalid or expired token'' JsonWebTokenError\<rparr>"
proof -
  have f: "falsy (Map.empty ''SECRET_KEY'')"
    by (simp add: falsy_def)
  show ?thesis
    using secret_key_absence_found_in_the_call
      [of Map.empty "\<lparr>mac = (\<lambda>k b. k), encode = (\<lambda>t. ''h.p.s''), decode = (\<lambda>s. None)\<rparr>"
          1000 "''u1''" "''h.p.s''"] f
    by simp
qed

text \<open>
  C8, as the claim words it, fails: with an empty environment the bootstrap ends with the
  server listening on port 3000, not with an abort, and the missing key is met first in
  the call of \<open>generateAccessToken\<close>.
\<close>

theorem startup_without_secret_key_counterexample:
  "falsy (Map.empty ''SECRET_KEY'') \<and>
   server_bootstrap Map.empty =
     Listening \<lparr>port = ''3000'', mongodb_uri = None,
                mounted = [''/'', ''/user'', ''/auth'', ''/job-application'']\<rparr> \<and>
   server_bootstrap Map.empty \<noteq> Aborted \<and>
   generateAccessToken
     \<lparr>mac = (\<lambda>k b. k), encode = (\<lambda>t. ''h.p.s''), decode = (\<lambda>s. None)\<rparr>
     Map.empty 1000 ''u1'' = Inl Error"
  by (simp add: falsy_def server_bootstrap_def generateAccessToken_def jwt_sign_def)

section \<open>The user model and routes: claims\<close>

text \<open>
  C7. The claim asks that every write of a user's password field stores a derived
  \<open>salt$derivedHash\<close> value. \<open>PUT /user/:id\<close> does not: it hands the password of the
  request body to \<open>findByIdAndUpdate\<close>, which runs no \<open>save\<close> hook. Here the handler
  runs on a user whose stored password is a derived hash, with the body
  \<open>{ password: "newpass" }\<close>: it answers 200, the stored password is now the plain text
  \<open>newpass\<close>, which is not in the stored-hash format, and \<open>verifyPassword\<close> of
  \<open>newpass\<close> against it is false.
\<close>

theorem put_user_stores_plaintext:
  "status (fst (put_user ''u1''
      (Some \<lparr>p_firstName = None, p_lastName = None, p_email = None, p_bio = None,
             p_accessLevel = None, p_newUser = None, p_password = Some ''newpass''\<rparr>)
      [''u1'' \<mapsto>
        \<lparr>firstName = ''Ada'', lastName = ''Byron'', email = ''ada@example.org'',
         password = ''000102030405060708090a0b0c0d0e0f$abababababababababababababababababababababababababababababababab'',
         bio = [], avatar = [], accessLevel = 1, newUser = True\<rparr>])) = 200 \<and>
   map_option password
     (snd (put_user ''u1''
        (Some \<lparr>p_firstName = None, p_lastName = None, p_email = None, p_bio = None,
               p_accessLevel = None, p_newUser = None, p_password = Some ''newpass''\<rparr>)
        [''u1'' \<mapsto>
          \<lparr>firstName = ''Ada'', lastName = ''Byron'', email = ''ada@example.org'',
           password = ''000102030405060708090a0b0c0d0e0f$abababababababababababababababababababababababababababababababab'',
           bio = [], avatar = [], accessLevel = 1, newUser = True\<rparr>]) ''u1'') = Some ''newpass'' \<and>
   \<not> stored_hash_format ''newpass'' \<and>
   verifyPassword kdf (JStr ''newpass'') (JStr ''newpass'') = Inr False"
  by (simp add: put_user_def findByIdAndUpdate_def apply_patch_def js_trim_def is_js_space_def
        stored_hash_format_def verifyPassword_strings)

text \<open>
  C10. A document whose password path is not modified passes the \<open>pre('save')\<close> hook
  unchanged, with no call of the hasher. Saving such a document, loaded from the
  collection, leaves every stored password and the random source as they were. So do
  \<open>DELETE /user/:id/avatar\<close> and \<open>POST /user/:id/avatar\<close>, on every branch.
\<close>

theorem save_keeps_unmodified_password:
  "(\<not> isModified ''password'' d \<longrightarrow> pre_save kdf d g = (Inr d, g)) \<and>
   (\<not> isModified ''password'' d \<and>
    map_option password (db (doc_id d)) = Some (password (doc d)) \<longrightarrow>
      map_option password (fst (snd (save kdf validate d db g)) i) = map_option password (db i) \<and>
      snd (snd (save kdf validate d db g)) = g) \<and>
   map_option password (users (snd (delete_avatar kdf validate ident w)) i) =
     map_option password (users w i) \<and>
   entropy (snd (delete_avatar kdf validate ident w)) = entropy w \<and>
   map_option password (users (snd (post_avatar kdf validate ident file w)) i) =
     map_option password (users w i) \<and>
   entropy (snd (post_avatar kdf validate ident file w)) = entropy w"
  by (simp add: pre_save_unmodified save_unmodified_password delete_avatar_password
        delete_avatar_entropy post_avatar_password post_avatar_entropy)

theorem save_keeps_unmodified_password_witness:
  "\<not> isModified ''password''
      (set_avatar []
        \<lparr>doc_id = ''u1'',
         doc = \<lparr>firstName = ''Ada'', lastName = ''Byron'', email = ''ada@example.org'',
                password = ''000102030405060708090a0b0c0d0e0f$abababababababababababababababababababababababababababababababab'',
                bio = [], avatar = ''user_u1.png'', accessLevel = 1, newUser = True\<rparr>,
         modifiedPaths = []\<rparr>) \<and>
   map_option password
     (users (snd (delete_avatar (\<lambda>p s c n d. replicate n 171) (\<lambda>f. True) ''u1''
        \<lparr>users = [''u1'' \<mapsto>
            \<lparr>firstName = ''Ada'', lastName = ''Byron'', email = ''ada@example.org'',
             password = ''000102030405060708090a0b0c0d0e0f$abababababababababababababababababababababababababababababababab'',
             bio = [], avatar = ''user_u1.png'', accessLevel = 1, newUser = True\<rparr>],
         files = {''public/avatars/user_u1.png''},
         entropy = (\<lambda>i. of_nat i)\<rparr>)) ''u1'') =
     Some ''000102030405060708090a0b0c0d0e0f$abababababababababababababababababababababababababababababababab'' \<and>
   map_option avatar
     (users (snd (delete_avatar (\<lambda>p s c n d. replicate n 171) (\<lambda>f. True) ''u1''
        \<lparr>users = [''u1'' \<mapsto>
            \<lparr>firstName = ''Ada'', lastName = ''Byron'', email = ''ada@example.org'',
             password = ''000102030405060708090a0b0c0d0e0f$abababababababababababababababababababababababababababababababab'',
             bio = [], avatar = ''user_u1.png'', accessLevel = 1, newUser = True\<rparr>],
         files = {''public/avatars/user_u1.png''},
         entropy = (\<lambda>i. of_nat i)\<rparr>)) ''u1'') = Some []"
proof -
  let ?f = "\<lparr>firstName = ''Ada'', lastName = ''Byron'', email = ''ada@example.org'',
             password = ''000102030405060708090a0b0c0d0e0f$abababababababababababababababababababababababababababababababab'',
             bio = [], avatar = ''user_u1.png'', accessLevel = 1, newUser = True\<rparr>"
  let ?d = "set_avatar [] \<lparr>doc_id = ''u1'', doc = ?f, modifiedPaths = []\<rparr>"
  let ?w = "\<lparr>users = [''u1'' \<mapsto> ?f], files = {''public/avatars/user_u1.png''},
             entropy = (\<lambda>i. of_nat i :: byte)\<rparr>"
  have m: "\<not> isModified ''password'' ?d"
    by (simp add: isModified_def set_avatar_def)
  have l: "map_option password ([''u1'' \<mapsto> ?f] (doc_id ?d)) = Some (password (doc ?d))"
    by (simp add: set_avatar_def)
  have a: "map_option avatar
     (users (snd (delete_avatar (\<lambda>p s c n d. replicate n 171) (\<lambda>f. True) ''u1'' ?w)) ''u1'') = Some []"
    by (simp add: delete_avatar_def findById_def save_loaded_avatar)
  show ?thesis
    using save_keeps_unmodified_password
      [of ?d "\<lambda>p s c n d. replicate n 171" "\<lambda>i. of_nat i" "[''u1'' \<mapsto> ?f]" "\<lambda>f. True"
          "''u1''" "''u1''" ?w None] m l a
    by simp
qed

end
